theory Spec2Isabelle
  imports Complex_Main
begin

section \<open>Data model\<close>

text \<open>
  The dashboard works on a flat list of training records (\<open>types.ts\<close>). JavaScript
  numbers are modelled as exact rationals, a \<open>Date\<close> as its time value in
  milliseconds, and strings as \<open>string\<close>. The field \<open>id\<close> of the source is
  called \<open>id_rec\<close> here, and the field \<open>end\<close> of the time period is called
  \<open>end'\<close>.
\<close>

datatype CourseType = Mandatory | Optional

fun CourseType_value :: "CourseType \<Rightarrow> string" where
  "CourseType_value Mandatory = ''Mandatory''"
| "CourseType_value Optional = ''Optional''"

record TrainingRecord =
  id_rec :: int
  traineeName :: string
  email :: string
  branch :: string
  districtHead :: string
  supervisor :: string
  courseTitle :: string
  completionRate :: rat
  preAssessmentScore :: rat
  postAssessmentScore :: rat
  averageQuizScore :: rat
  courseType :: CourseType
  completionDate :: int
  trainingHours :: rat

record TimePeriod =
  start :: "int option"
  end' :: "int option"

record Filters =
  branchFilter :: "string list"
  districtHeadFilter :: "string list"
  supervisorFilter :: "string list"
  courseFilter :: "string list"
  courseTypeFilter :: "string list"
  timePeriodFilter :: TimePeriod

section \<open>Filter engine (\<open>Dashboard.tsx\<close>, \<open>filteredData\<close>)\<close>

text \<open>\<open>Array.prototype.includes\<close> on an array of strings.\<close>

definition includes_arr :: "'a list \<Rightarrow> 'a \<Rightarrow> bool" where
  "includes_arr xs x = list_ex (\<lambda>y. y = x) xs"

text \<open>
  A date bound that is \<open>null\<close> is falsy, so \<open>!bound || ...\<close> passes every record;
  a \<open>Date\<close> object is always truthy and the comparison is on time values.
\<close>

definition filteredData :: "TrainingRecord list \<Rightarrow> Filters \<Rightarrow> TrainingRecord list" where
  "filteredData allData filters = filter (\<lambda>item.
     let branchMatch = (length (branchFilter filters) = 0 \<or> includes_arr (branchFilter filters) (branch item));
         districtHeadMatch = (length (districtHeadFilter filters) = 0
            \<or> includes_arr (districtHeadFilter filters) (districtHead item));
         supervisorMatch = (length (supervisorFilter filters) = 0
            \<or> includes_arr (supervisorFilter filters) (supervisor item));
         courseMatch = (length (courseFilter filters) = 0 \<or> includes_arr (courseFilter filters) (courseTitle item));
         courseTypeMatch = (length (courseTypeFilter filters) = 0
            \<or> includes_arr (courseTypeFilter filters) (CourseType_value (courseType item)));
         startDateMatch = (case start (timePeriodFilter filters) of
              None \<Rightarrow> True | Some s \<Rightarrow> completionDate item \<ge> s);
         endDateMatch = (case end' (timePeriodFilter filters) of
              None \<Rightarrow> True | Some e \<Rightarrow> completionDate item \<le> e)
     in branchMatch \<and> districtHeadMatch \<and> supervisorMatch \<and> courseMatch \<and> courseTypeMatch
        \<and> startDateMatch \<and> endDateMatch) allData"

text \<open>The initial filter state of the dashboard: nothing selected, no date bound.\<close>

definition noFilters :: Filters where
  "noFilters = \<lparr> branchFilter = [], districtHeadFilter = [], supervisorFilter = [],
     courseFilter = [], courseTypeFilter = [],
     timePeriodFilter = \<lparr> start = None, end' = None \<rparr> \<rparr>"

text \<open>Sample records used to run the definitions on concrete inputs.\<close>

definition sampleRecord :: "string \<Rightarrow> string \<Rightarrow> string \<Rightarrow> string \<Rightarrow> rat \<Rightarrow> rat \<Rightarrow> int
    \<Rightarrow> TrainingRecord" where
  "sampleRecord nm em br course rate post day =
     \<lparr> id_rec = 1, traineeName = nm, email = em, branch = br, districtHead = ''D'',
       supervisor = ''S'', courseTitle = course, completionRate = rate,
       preAssessmentScore = 0, postAssessmentScore = post, averageQuizScore = 0,
       courseType = Mandatory, completionDate = day, trainingHours = 1 \<rparr>"

section \<open>Trend rollup (\<open>TrendAnalysis.tsx\<close>, \<open>calculateMovingAverage\<close>)\<close>

text \<open>
  A monthly bucket as \<open>monthlyData\<close> builds it, and the bucket extended by the
  spread \<open>{ ...d, movingAverage: v }\<close>; \<open>null\<close> is \<open>None\<close>. The bucket's field
  \<open>trainingHours\<close> is called \<open>trainingHours_b\<close> here.
\<close>

record MonthBucket =
  month :: string
  avgCompletion :: rat
  trainingHours_b :: rat

record TrendPoint = MonthBucket +
  movingAverage :: "rat option"

text \<open>
  \<open>Array.prototype.slice(start, end)\<close>: a negative index counts from the end of the
  array, and both indices are clipped to the array.
\<close>

definition slice :: "'a list \<Rightarrow> int \<Rightarrow> int \<Rightarrow> 'a list" where
  "slice arr start_i end_i =
     (let len = int (length arr);
          k = (if start_i < 0 then max (len + start_i) 0 else min start_i len);
          final = (if end_i < 0 then max (len + end_i) 0 else min end_i len)
      in take (nat (final - k)) (drop (nat k) arr))"

text \<open>
  The window size is 3 at the only call site. For a window size of 0 the source divides
  by zero and yields \<open>NaN\<close>, which this model does not represent.
\<close>

definition calculateMovingAverage :: "MonthBucket list \<Rightarrow> nat \<Rightarrow> TrendPoint list" where
  "calculateMovingAverage data windowSize =
     (if length data < windowSize
      then map (\<lambda>d. MonthBucket.extend d (TrendPoint.fields None)) data
      else map (\<lambda>index.
             if int index < int windowSize - 1
             then MonthBucket.extend (data ! index) (TrendPoint.fields None)
             else (let window = slice data (int index - int windowSize + 1) (int index + 1);
                       sum = foldl (\<lambda>acc val. acc + avgCompletion val) 0 window
                   in MonthBucket.extend (data ! index)
                        (TrendPoint.fields (Some (sum / of_nat windowSize)))))
           [0..<length data])"

definition sampleBucket :: "string \<Rightarrow> rat \<Rightarrow> MonthBucket" where
  "sampleBucket m c = \<lparr> month = m, avgCompletion = c, trainingHours_b = 0 \<rparr>"

section \<open>Group comparison KPIs (\<open>ComparisonTool.tsx\<close>, \<open>calculateKpis\<close>)\<close>

text \<open>
  A JavaScript division by zero does not throw, it yields \<open>Infinity\<close> or \<open>NaN\<close>.
  The model makes that outcome an explicit error value, so that a KPI computation that
  reaches a zero divisor is visible in its result. The field \<open>avgCompletion\<close> of the
  KPI structure is called \<open>avgCompletion_k\<close> here, and local variables that share a
  name with a field carry a prime.
\<close>

datatype num_error = DivisionByZero

definition divide_checked :: "rat \<Rightarrow> rat \<Rightarrow> num_error + rat" where
  "divide_checked a b = (if b = 0 then Inl DivisionByZero else Inr (a / b))"

record Kpis =
  totalLearners :: nat
  avgCompletion_k :: rat
  avgPostScore :: rat
  improvement :: rat
  totalHours :: rat
  recordCount :: nat

text \<open>\<open>new Set(xs).size\<close>: the number of distinct elements.\<close>

definition Set_size :: "'a list \<Rightarrow> nat" where
  "Set_size xs = length (remdups xs)"

definition calculateKpis :: "TrainingRecord list \<Rightarrow> num_error + Kpis" where
  "calculateKpis data =
     (if length data = 0
      then Inr \<lparr> totalLearners = 0, avgCompletion_k = 0, avgPostScore = 0, improvement = 0,
                 totalHours = 0, recordCount = 0 \<rparr>
      else
        let totalLearners' = Set_size (map traineeName data) in
        case divide_checked (foldl (\<lambda>acc curr. acc + completionRate curr) 0 data)
               (of_nat (length data)) of
          Inl e \<Rightarrow> Inl e
        | Inr avgCompletion' \<Rightarrow>
        let totalHours' = foldl (\<lambda>acc curr. acc + trainingHours curr) 0 data;
            completedTrainings = filter (\<lambda>d. postAssessmentScore d > 0) data in
        case (if length completedTrainings > 0
              then divide_checked
                     (foldl (\<lambda>acc curr. acc + postAssessmentScore curr) 0 completedTrainings)
                     (of_nat (length completedTrainings))
              else Inr 0) of
          Inl e \<Rightarrow> Inl e
        | Inr avgPostScore' \<Rightarrow>
        let preScores = foldl (\<lambda>acc curr. acc + preAssessmentScore curr) 0 completedTrainings;
            postScores = foldl (\<lambda>acc curr. acc + postAssessmentScore curr) 0 completedTrainings in
        case (if preScores > 0
              then (case divide_checked (postScores - preScores) preScores of
                      Inl e \<Rightarrow> Inl e | Inr q \<Rightarrow> Inr (q * 100))
              else Inr 0) of
          Inl e \<Rightarrow> Inl e
        | Inr improvement' \<Rightarrow>
            Inr \<lparr> totalLearners = totalLearners', avgCompletion_k = avgCompletion',
                  avgPostScore = avgPostScore', improvement = improvement',
                  totalHours = totalHours', recordCount = length data \<rparr>)"

section \<open>Dictionaries, number printing and sorting\<close>

text \<open>
  A JavaScript \<open>Map\<close>, and an object that the source declares and uses as a dictionary
  (\<open>{ [key: string]: V }\<close>), is modelled as an association list with unique keys in
  insertion order. \<open>dict_has\<close> is \<open>Map.has\<close> and the test \<open>!obj[key]\<close> (every stored
  value is an object and hence truthy); \<open>dict_set\<close> is \<open>Map.set\<close> and the assignment
  \<open>obj[key] = v\<close>; \<open>dict_modify\<close> is an in-place mutation of the value stored under a
  key; \<open>dict_values\<close> and \<open>dict_entries\<close> are \<open>Map.values\<close> and \<open>Object.entries\<close>.
  Keys are taken to be ordinary dictionary keys: an object key that is an array index or
  the name of a member inherited from \<open>Object.prototype\<close> is outside this model.
\<close>

definition dict_has :: "('k \<times> 'v) list \<Rightarrow> 'k \<Rightarrow> bool" where
  "dict_has m k = (map_of m k \<noteq> None)"

definition dict_set :: "('k \<times> 'v) list \<Rightarrow> 'k \<Rightarrow> 'v \<Rightarrow> ('k \<times> 'v) list" where
  "dict_set m k v =
     (if dict_has m k then map (\<lambda>(k', v'). if k' = k then (k', v) else (k', v')) m
      else m @ [(k, v)])"

definition dict_modify :: "('k \<times> 'v) list \<Rightarrow> 'k \<Rightarrow> ('v \<Rightarrow> 'v) \<Rightarrow> ('k \<times> 'v) list" where
  "dict_modify m k f = map (\<lambda>(k', v'). if k' = k then (k', f v') else (k', v')) m"

definition dict_values :: "('k \<times> 'v) list \<Rightarrow> 'v list" where
  "dict_values m = map snd m"

definition dict_entries :: "('k \<times> 'v) list \<Rightarrow> ('k \<times> 'v) list" where
  "dict_entries m = m"

text \<open>
  The grouping loops of the aggregations share one shape: skip the record unless it
  qualifies; create the group of the record's key if there is none; mutate the group.
\<close>

definition group_step :: "('r \<Rightarrow> bool) \<Rightarrow> ('r \<Rightarrow> 'k) \<Rightarrow> ('r \<Rightarrow> 'v) \<Rightarrow> ('r \<Rightarrow> 'v \<Rightarrow> 'v)
    \<Rightarrow> ('k \<times> 'v) list \<Rightarrow> 'r \<Rightarrow> ('k \<times> 'v) list" where
  "group_step q keyOf init g m r =
     (if q r
      then dict_modify (if \<not> dict_has m (keyOf r) then dict_set m (keyOf r) (init r) else m)
             (keyOf r) (g r)
      else m)"

text \<open>
  A \<open>Set\<close> of strings is a duplicate-free list in insertion order; \<open>Set_add\<close> is
  \<open>Set.add\<close>.
\<close>

definition Set_add :: "'a list \<Rightarrow> 'a \<Rightarrow> 'a list" where
  "Set_add s x = (if x \<in> set s then s else s @ [x])"

text \<open>
  The decimal representation of an integer, as a template literal prints it. (JavaScript
  switches to exponent notation from \<open>10^21\<close> on; the model prints all digits.)
\<close>

definition digit_char :: "nat \<Rightarrow> char" where
  "digit_char n = ''0123456789'' ! n"

fun show_nat :: "nat \<Rightarrow> string" where
  "show_nat n = (if n < 10 then [digit_char n] else show_nat (n div 10) @ [digit_char (n mod 10)])"

definition show_int :: "int \<Rightarrow> string" where
  "show_int i = (if i < 0 then CHR ''-'' # show_nat (nat (- i)) else show_nat (nat i))"

text \<open>\<open>Array.prototype.join\<close> on an array of strings.\<close>

fun Array_join :: "string list \<Rightarrow> string \<Rightarrow> string" where
  "Array_join [] sep = []"
| "Array_join [x] sep = x"
| "Array_join (x # y # ys) sep = x @ sep @ Array_join (y # ys) sep"

text \<open>
  \<open>parseFloat(x.toFixed(1))\<close>: the multiple of one tenth nearest to \<open>x\<close>, a tie going
  away from zero.
\<close>

definition toFixed1 :: "rat \<Rightarrow> rat" where
  "toFixed1 x = (if x < 0 then - (of_int \<lfloor>- x * 10 + 1 / 2\<rfloor> / 10)
                 else of_int \<lfloor>x * 10 + 1 / 2\<rfloor> / 10)"

text \<open>
  \<open>Array.prototype.sort\<close> with a comparison function. ECMAScript requires the sort to be
  stable; it is modelled as the stable insertion sort that keeps \<open>x\<close> in front of \<open>y\<close>
  unless the comparison function returns a positive number for \<open>(x, y)\<close>.
\<close>

fun Array_insert :: "('a \<Rightarrow> 'a \<Rightarrow> rat) \<Rightarrow> 'a \<Rightarrow> 'a list \<Rightarrow> 'a list" where
  "Array_insert cmp x [] = [x]"
| "Array_insert cmp x (y # ys) = (if cmp x y \<le> 0 then x # y # ys else y # Array_insert cmp x ys)"

definition Array_sort :: "('a \<Rightarrow> 'a \<Rightarrow> rat) \<Rightarrow> 'a list \<Rightarrow> 'a list" where
  "Array_sort cmp xs = foldr (Array_insert cmp) xs []"

text \<open>\<open>Array.prototype.map\<close> with the callback \<open>(element, index) => ...\<close>.\<close>

definition map_index :: "('a \<Rightarrow> nat \<Rightarrow> 'b) \<Rightarrow> 'a list \<Rightarrow> 'b list" where
  "map_index f xs = map (\<lambda>(index, x). f x index) (enumerate 0 xs)"

section \<open>At-risk trainees (\<open>ActionableInsights.tsx\<close>)\<close>

record Thresholds =
  AT_RISK_COMPLETION :: int
  AT_RISK_SCORE :: int
  COURSE_ATTENTION_COMPLETION :: int
  COURSE_ATTENTION_SCORE :: int

definition DEFAULT_THRESHOLDS :: Thresholds where
  "DEFAULT_THRESHOLDS = \<lparr> AT_RISK_COMPLETION = 30, AT_RISK_SCORE = 50,
     COURSE_ATTENTION_COMPLETION = 60, COURSE_ATTENTION_SCORE = 60 \<rparr>"

record RiskEntry =
  trainee :: TrainingRecord
  reasons :: "string list"

text \<open>The array \<open>reasons\<close> that the loop body builds for one record.\<close>

definition record_reasons :: "Thresholds \<Rightarrow> TrainingRecord \<Rightarrow> string list" where
  "record_reasons thresholds record =
     (let r0 = [];
          r1 = (if completionRate record < of_int (AT_RISK_COMPLETION thresholds)
                then r0 @ [''Completion < '' @ show_int (AT_RISK_COMPLETION thresholds) @ ''%'']
                else r0);
          r2 = (if postAssessmentScore record > 0
                   \<and> postAssessmentScore record < of_int (AT_RISK_SCORE thresholds)
                then r1 @ [''Score < '' @ show_int (AT_RISK_SCORE thresholds) @ ''%'']
                else r1)
      in r2)"

text \<open>The strings that the loop body pushes for one record: its reasons, tagged with the course.\<close>

definition tagged_reasons :: "Thresholds \<Rightarrow> TrainingRecord \<Rightarrow> string list" where
  "tagged_reasons thresholds record =
     map (\<lambda>r. r @ '' on '' @ [CHR 0x27] @ courseTitle record @ [CHR 0x27])
       (record_reasons thresholds record)"

text \<open>One iteration of \<open>data.forEach\<close> on the \<open>riskMap\<close>.\<close>

definition riskMap_step :: "Thresholds \<Rightarrow> (string \<times> RiskEntry) list \<Rightarrow> TrainingRecord
    \<Rightarrow> (string \<times> RiskEntry) list" where
  "riskMap_step thresholds riskMap record =
     (let rs = record_reasons thresholds record in
      if length rs > 0
      then dict_modify
             (if \<not> dict_has riskMap (traineeName record)
              then dict_set riskMap (traineeName record) \<lparr> trainee = record, reasons = [] \<rparr>
              else riskMap)
             (traineeName record)
             (\<lambda>e. e \<lparr> reasons := reasons e @ tagged_reasons thresholds record \<rparr>)
      else riskMap)"

definition atRiskTrainees :: "TrainingRecord list \<Rightarrow> Thresholds \<Rightarrow> RiskEntry list" where
  "atRiskTrainees data thresholds = dict_values (foldl (riskMap_step thresholds) [] data)"

text \<open>
  The rows handed to the table. The row's fields \<open>traineeName\<close>, \<open>branch\<close>,
  \<open>supervisor\<close>, \<open>reasons\<close> and \<open>email\<close> carry the suffix \<open>_r\<close> here.
\<close>

record AtRiskRow =
  traineeName_r :: string
  branch_r :: string
  supervisor_r :: string
  reasons_r :: string
  email_r :: string

definition atRiskTraineesData :: "TrainingRecord list \<Rightarrow> Thresholds \<Rightarrow> AtRiskRow list" where
  "atRiskTraineesData data thresholds = map (\<lambda>item.
       \<lparr> traineeName_r = traineeName (trainee item),
         branch_r = branch (trainee item),
         supervisor_r = supervisor (trainee item),
         reasons_r = Array_join (reasons item) ''; '',
         email_r = email (trainee item) \<rparr>)
     (atRiskTrainees data thresholds)"

section \<open>Leaderboards (\<open>Leaderboard.tsx\<close>)\<close>







text \<open>
  The groups and rows of the Top Branches leaderboard. The group's field \<open>count\<close> and the
  row's fields \<open>name\<close> and \<open>rank\<close> carry the suffix \<open>_b\<close>.
\<close>

record BranchRate =
  totalRate :: rat
  count_b :: nat
  trainees :: "string list"

record BranchRow =
  name_b :: string
  avgRate :: rat
  traineeInfo :: string
  traineeCount :: nat

record RankedBranch = BranchRow +
  rank_b :: nat

definition branchRates_update :: "(string \<times> BranchRate) list \<Rightarrow> TrainingRecord
    \<Rightarrow> (string \<times> BranchRate) list" where
  "branchRates_update branchRates d =
     dict_modify
       (dict_modify
          (dict_modify
             (if \<not> dict_has branchRates (branch d)
              then dict_set branchRates (branch d) \<lparr> totalRate = 0, count_b = 0, trainees = [] \<rparr>
              else branchRates)
             (branch d) (\<lambda>s. s \<lparr> totalRate := totalRate s + completionRate d \<rparr>))
          (branch d) (\<lambda>s. s \<lparr> count_b := count_b s + 1 \<rparr>))
       (branch d) (\<lambda>s. s \<lparr> trainees := Set_add (trainees s) (traineeName d) \<rparr>)"

text \<open>
  What follows the loop: the callback of the first \<open>map\<close>, then the sort and the ranks
  (\<open>trainees.size\<close> is the length of the duplicate-free list).
\<close>

definition branchRow :: "string \<times> BranchRate \<Rightarrow> BranchRow" where
  "branchRow = (\<lambda>(name', s).
     \<lparr> name_b = name', avgRate = toFixed1 (totalRate s / of_nat (count_b s)),
       traineeInfo = ''('' @ show_nat (length (trainees s)) @ '' trainees)'',
       traineeCount = length (trainees s) \<rparr>)"

definition branchRows :: "(string \<times> BranchRate) list \<Rightarrow> RankedBranch list" where
  "branchRows branchRates =
     map_index (\<lambda>branch' index. BranchRow.extend branch' (RankedBranch.fields (index + 1)))
       (Array_sort (\<lambda>a b. avgRate b - avgRate a)
         (map branchRow (dict_entries branchRates)))"

text \<open>
  \<open>topBranches\<close> as in \<open>components/sections/Leaderboard.tsx\<close> (and \<open>index.tsx\<close>): the
  loop body groups every record.
\<close>

definition topBranches :: "TrainingRecord list \<Rightarrow> RankedBranch list" where
  "topBranches data = branchRows (foldl (\<lambda>branchRates d. branchRates_update branchRates d) [] data)"

text \<open>
  \<open>topBranches\<close> as in \<open>src/components/sections/Leaderboard.tsx\<close>: the loop body starts
  with \<open>if (!d.branch) return;\<close>.
\<close>

definition topBranches_guarded :: "TrainingRecord list \<Rightarrow> RankedBranch list" where
  "topBranches_guarded data =
     branchRows (foldl (\<lambda>branchRates d.
        if branch d = [] then branchRates else branchRates_update branchRates d) [] data)"

section \<open>Table view state (\<open>hooks/useDataTable.ts\<close>)\<close>

text \<open>
  The hook is generic in the row type \<open>T extends Record<string, any>\<close>. A row is the list
  of its properties in property order; the value of a property is \<open>null\<close>, \<open>undefined\<close>
  or a value of the column's type \<open>'v\<close>, which JavaScript compares with \<open><\<close> and \<open>>\<close>.
  These comparisons are the strict order of \<open>'v\<close>, and \<open>a > b\<close> is \<open>b < a\<close>. Reading a
  property that the row does not have yields \<open>undefined\<close>.
\<close>

datatype 'v cell = Null | Undefined | Val 'v

definition row_get :: "('k \<times> 'v cell) list \<Rightarrow> 'k \<Rightarrow> 'v cell" where
  "row_get item k = (case map_of item k of None \<Rightarrow> Undefined | Some c \<Rightarrow> c)"

datatype SortDirection = ascending | descending

record 'k SortConfig =
  key :: "'k option"
  direction :: SortDirection

text \<open>
  A hook instance: the props of the last render (\<open>items\<close>, \<open>rowsPerPage\<close>) and the three
  state cells. \<open>rowsPerPage\<close> is a positive integer at every call site; for 0 the
  source's \<open>pageCount\<close> is \<open>Infinity\<close> or 1, which this model does not represent.
\<close>

record ('k, 'v) DataTable =
  items :: "('k \<times> 'v cell) list list"
  rowsPerPage :: nat
  searchTerm :: string
  sortConfig :: "'k SortConfig"
  currentPage :: int

definition useDataTable :: "('k \<times> 'v cell) list list \<Rightarrow> 'k option \<Rightarrow> nat \<Rightarrow> ('k, 'v) DataTable" where
  "useDataTable items' initialSortKey rowsPerPage' =
     \<lparr> items = items', rowsPerPage = rowsPerPage', searchTerm = [],
       sortConfig = \<lparr> key = initialSortKey, direction = descending \<rparr>, currentPage = 1 \<rparr>"

text \<open>\<open>String.prototype.toLowerCase\<close>, on the ASCII letters.\<close>

definition toLowerCase :: "string \<Rightarrow> string" where
  "toLowerCase s = map (\<lambda>c. let n = (of_char c :: nat) in
       if 65 \<le> n \<and> n \<le> 90 then char_of (n + 32) else c) s"

text \<open>\<open>String.prototype.includes\<close>: the argument occurs as a substring.\<close>

definition String_includes :: "string \<Rightarrow> string \<Rightarrow> bool" where
  "String_includes s t = list_ex (\<lambda>i. take (length t) (drop i s) = t) [0..<length s + 1]"

text \<open>
  \<open>Object.values(item).join(' ')\<close>: \<open>join\<close> prints \<open>null\<close> and \<open>undefined\<close> as the empty
  string and every other value \<open>v\<close> as \<open>String(v)\<close>, which is the parameter \<open>str\<close>.
\<close>

definition rowString :: "('v \<Rightarrow> string) \<Rightarrow> ('k \<times> 'v cell) list \<Rightarrow> string" where
  "rowString str item =
     Array_join (map (\<lambda>(k, c). case c of Val v \<Rightarrow> str v | _ \<Rightarrow> []) item) '' ''"

definition filteredItems :: "('v \<Rightarrow> string) \<Rightarrow> ('k, 'v) DataTable \<Rightarrow> ('k \<times> 'v cell) list list" where
  "filteredItems str h =
     (if searchTerm h = [] then items h
      else let lowercasedSearchTerm = toLowerCase (searchTerm h) in
           filter (\<lambda>item. String_includes (toLowerCase (rowString str item)) lowercasedSearchTerm)
             (items h))"

text \<open>The test \<open>value === null || value === undefined\<close>.\<close>

definition nullish :: "'v cell \<Rightarrow> bool" where
  "nullish c = (c = Null \<or> c = Undefined)"

text \<open>The comparison function handed to \<open>sort\<close>.\<close>

definition compareRows :: "'k \<Rightarrow> SortDirection \<Rightarrow> ('k \<times> ('v::preorder) cell) list
    \<Rightarrow> ('k \<times> 'v cell) list \<Rightarrow> rat" where
  "compareRows k dir a b =
     (let aValue = row_get a k; bValue = row_get b k in
      if nullish aValue then 1
      else if nullish bValue then - 1
      else case (aValue, bValue) of
        (Val x, Val y) \<Rightarrow>
          if x < y then (if dir = ascending then - 1 else 1)
          else if y < x then (if dir = ascending then 1 else - 1)
          else 0
      | _ \<Rightarrow> 0)"

definition sortedItems :: "('v \<Rightarrow> string) \<Rightarrow> ('k, 'v::preorder) DataTable \<Rightarrow> ('k \<times> 'v cell) list list" where
  "sortedItems str h =
     (let sortableItems = filteredItems str h in
      case key (sortConfig h) of
        None \<Rightarrow> sortableItems
      | Some k \<Rightarrow> Array_sort (compareRows k (direction (sortConfig h))) sortableItems)"

text \<open>\<open>Math.ceil(sortedItems.length / rowsPerPage) || 1\<close>: 0 is falsy.\<close>

definition pageCount :: "('v \<Rightarrow> string) \<Rightarrow> ('k, 'v::preorder) DataTable \<Rightarrow> int" where
  "pageCount str h =
     (let c = \<lceil>(of_nat (length (sortedItems str h)) :: rat) / of_nat (rowsPerPage h)\<rceil>
      in if c = 0 then 1 else c)"

definition actualCurrentPage :: "('v \<Rightarrow> string) \<Rightarrow> ('k, 'v::preorder) DataTable \<Rightarrow> int" where
  "actualCurrentPage str h = min (currentPage h) (pageCount str h)"

definition paginatedItems :: "('v \<Rightarrow> string) \<Rightarrow> ('k, 'v::preorder) DataTable \<Rightarrow> ('k \<times> 'v cell) list list" where
  "paginatedItems str h =
     (let startIndex = (actualCurrentPage str h - 1) * int (rowsPerPage h)
      in slice (sortedItems str h) startIndex (startIndex + int (rowsPerPage h)))"

text \<open>The operations of the hook, each as a function on the hook instance.\<close>

definition requestSort :: "'k \<Rightarrow> ('k, 'v) DataTable \<Rightarrow> ('k, 'v) DataTable" where
  "requestSort k h =
     (let direction0 = ascending;
          direction1 = (if key (sortConfig h) = Some k \<and> direction (sortConfig h) = ascending
                        then descending else direction0)
      in h \<lparr> sortConfig := \<lparr> key = Some k, direction = direction1 \<rparr>, currentPage := 1 \<rparr>)"

definition handleSearchChange :: "string \<Rightarrow> ('k, 'v) DataTable \<Rightarrow> ('k, 'v) DataTable" where
  "handleSearchChange v h = h \<lparr> searchTerm := v, currentPage := 1 \<rparr>"

definition nextPage :: "('v \<Rightarrow> string) \<Rightarrow> ('k, 'v::preorder) DataTable \<Rightarrow> ('k, 'v) DataTable" where
  "nextPage str h = h \<lparr> currentPage := min (currentPage h + 1) (pageCount str h) \<rparr>"

definition prevPage :: "('k, 'v) DataTable \<Rightarrow> ('k, 'v) DataTable" where
  "prevPage h = h \<lparr> currentPage := max (currentPage h - 1) 1 \<rparr>"

definition setPage :: "('v \<Rightarrow> string) \<Rightarrow> int \<Rightarrow> ('k, 'v::preorder) DataTable \<Rightarrow> ('k, 'v) DataTable" where
  "setPage str page h = h \<lparr> currentPage := max 1 (min page (pageCount str h)) \<rparr>"

text \<open>The effect that writes the clamped page back into the state.\<close>

definition syncPage :: "('v \<Rightarrow> string) \<Rightarrow> ('k, 'v::preorder) DataTable \<Rightarrow> ('k, 'v) DataTable" where
  "syncPage str h =
     (if currentPage h \<noteq> actualCurrentPage str h
      then h \<lparr> currentPage := actualCurrentPage str h \<rparr> else h)"

text \<open>
  What can happen to a hook instance: a call of one of its operations, a run of the
  effect, or a render with a new \<open>items\<close> prop.
\<close>

datatype ('k, 'v) event =
    RequestSort 'k
  | HandleSearchChange string
  | NextPage
  | PrevPage
  | SetPage int
  | SyncPage
  | NewItems "('k \<times> 'v cell) list list"

fun step :: "('v \<Rightarrow> string) \<Rightarrow> ('k, 'v::preorder) DataTable \<Rightarrow> ('k, 'v) event \<Rightarrow> ('k, 'v) DataTable" where
  "step str h (RequestSort k) = requestSort k h"
| "step str h (HandleSearchChange v) = handleSearchChange v h"
| "step str h NextPage = nextPage str h"
| "step str h PrevPage = prevPage h"
| "step str h (SetPage page) = setPage str page h"
| "step str h SyncPage = syncPage str h"
| "step str h (NewItems items') = h \<lparr> items := items' \<rparr>"

definition run :: "('v \<Rightarrow> string) \<Rightarrow> ('k, 'v::preorder) DataTable \<Rightarrow> ('k, 'v) event list \<Rightarrow> ('k, 'v) DataTable" where
  "run str h events = foldl (step str) h events"

text \<open>Sample rows with the single column \<open>''id''\<close>.\<close>

definition sampleRows :: "nat \<Rightarrow> (string \<times> nat cell) list list" where
  "sampleRows n = map (\<lambda>i. [(''id'', Val i)]) [0..<n]"

section \<open>Properties of the filter engine\<close>

lemma includes_arr_set: "includes_arr xs x \<longleftrightarrow> x \<in> set xs"
  by (auto simp: includes_arr_def list_ex_iff)

text \<open>
  C1. The filtered view consists of exactly the records, in input order, that belong to
  every non-empty selection and lie within every date bound that is set; with no
  selection and no bound the input is returned unchanged.
\<close>

theorem filteredData_characterisation:
  "filteredData R f = filter (\<lambda>r.
       (branchFilter f \<noteq> [] \<longrightarrow> branch r \<in> set (branchFilter f))
     \<and> (districtHeadFilter f \<noteq> [] \<longrightarrow> districtHead r \<in> set (districtHeadFilter f))
     \<and> (supervisorFilter f \<noteq> [] \<longrightarrow> supervisor r \<in> set (supervisorFilter f))
     \<and> (courseFilter f \<noteq> [] \<longrightarrow> courseTitle r \<in> set (courseFilter f))
     \<and> (courseTypeFilter f \<noteq> [] \<longrightarrow> CourseType_value (courseType r) \<in> set (courseTypeFilter f))
     \<and> (\<forall>s. start (timePeriodFilter f) = Some s \<longrightarrow> completionDate r \<ge> s)
     \<and> (\<forall>e. end' (timePeriodFilter f) = Some e \<longrightarrow> completionDate r \<le> e)) R
   \<and> (branchFilter f = [] \<and> districtHeadFilter f = [] \<and> supervisorFilter f = []
        \<and> courseFilter f = [] \<and> courseTypeFilter f = []
        \<and> start (timePeriodFilter f) = None \<and> end' (timePeriodFilter f) = None
      \<longrightarrow> filteredData R f = R)"
proof
  show "filteredData R f = filter (\<lambda>r.
       (branchFilter f \<noteq> [] \<longrightarrow> branch r \<in> set (branchFilter f))
     \<and> (districtHeadFilter f \<noteq> [] \<longrightarrow> districtHead r \<in> set (districtHeadFilter f))
     \<and> (supervisorFilter f \<noteq> [] \<longrightarrow> supervisor r \<in> set (supervisorFilter f))
     \<and> (courseFilter f \<noteq> [] \<longrightarrow> courseTitle r \<in> set (courseFilter f))
     \<and> (courseTypeFilter f \<noteq> [] \<longrightarrow> CourseType_value (courseType r) \<in> set (courseTypeFilter f))
     \<and> (\<forall>s. start (timePeriodFilter f) = Some s \<longrightarrow> completionDate r \<ge> s)
     \<and> (\<forall>e. end' (timePeriodFilter f) = Some e \<longrightarrow> completionDate r \<le> e)) R"
    unfolding filteredData_def Let_def
    by (rule filter_cong) (auto simp: includes_arr_set split: option.splits)
next
  show "branchFilter f = [] \<and> districtHeadFilter f = [] \<and> supervisorFilter f = []
        \<and> courseFilter f = [] \<and> courseTypeFilter f = []
        \<and> start (timePeriodFilter f) = None \<and> end' (timePeriodFilter f) = None
      \<longrightarrow> filteredData R f = R"
    by (simp add: filteredData_def)
qed

theorem filteredData_characterisation_witness:
  "filteredData
     [sampleRecord ''A'' ''a@x.com'' ''B1'' ''C1'' 20 0 5,
      sampleRecord ''B'' ''b@x.com'' ''B2'' ''C1'' 90 0 7,
      sampleRecord ''C'' ''c@x.com'' ''B1'' ''C2'' 90 0 12]
     (noFilters \<lparr> branchFilter := [''B1''], timePeriodFilter := \<lparr> start = Some 1, end' = Some 10 \<rparr> \<rparr>)
   = [sampleRecord ''A'' ''a@x.com'' ''B1'' ''C1'' 20 0 5]
   \<and> filteredData [sampleRecord ''A'' ''a@x.com'' ''B1'' ''C1'' 20 0 5] noFilters
     = [sampleRecord ''A'' ''a@x.com'' ''B1'' ''C1'' 20 0 5]"
  using filteredData_characterisation
     [of "[sampleRecord ''A'' ''a@x.com'' ''B1'' ''C1'' 20 0 5,
      sampleRecord ''B'' ''b@x.com'' ''B2'' ''C1'' 90 0 7,
      sampleRecord ''C'' ''c@x.com'' ''B1'' ''C2'' 90 0 12]"
      "noFilters \<lparr> branchFilter := [''B1''], timePeriodFilter := \<lparr> start = Some 1, end' = Some 10 \<rparr> \<rparr>"]
    filteredData_characterisation [of "[sampleRecord ''A'' ''a@x.com'' ''B1'' ''C1'' 20 0 5]" noFilters]
  by (simp add: noFilters_def sampleRecord_def)

text \<open>
  C2. Filtering is idempotent: filtering the filtered view again with the same filters
  changes nothing.
\<close>

theorem filteredData_idempotent:
  "filteredData (filteredData R f) f = filteredData R f"
  by (simp add: filteredData_def)

section \<open>Properties of the trend rollup\<close>

lemma foldl_add_sum_list: "foldl (\<lambda>acc curr. acc + f curr) a xs = a + sum_list (map f xs)"
  by (induction xs arbitrary: a) (auto simp: algebra_simps)

lemma slice_window3:
  assumes "2 \<le> i" "i < length xs"
  shows "slice xs (int i - 3 + 1) (int i + 1) = [xs ! (i - 2), xs ! (i - 1), xs ! i]"
proof -
  have "take 3 (drop (i - 2) xs) = [xs ! (i - 2), xs ! (i - 1), xs ! i]"
    using assms by (auto simp: list_eq_iff_nth_eq nth_Cons' less_Suc_eq numeral_3_eq_3)
  moreover have "nat (int i - 2) = i - 2" using assms by simp
  moreover have "nat (int i + 1 - (int i - 2)) = 3" by simp
  ultimately show ?thesis using assms by (simp add: slice_def Let_def)
qed

lemma length_calculateMovingAverage:
  "length (calculateMovingAverage data w) = length data"
  by (simp add: calculateMovingAverage_def)

lemma calculateMovingAverage_nth:
  assumes "i < length data"
  shows "calculateMovingAverage data 3 ! i =
     MonthBucket.extend (data ! i) (TrendPoint.fields
        (if i < 2 then None
         else Some ((avgCompletion (data ! (i - 2)) + avgCompletion (data ! (i - 1))
                     + avgCompletion (data ! i)) / 3)))"
proof (cases "length data < 3")
  case True
  with assms have "i < 2 \<or> i = 2" by linarith
  with True assms show ?thesis by (auto simp: calculateMovingAverage_def)
next
  case False
  show ?thesis
  proof (cases "i < 2")
    case True
    with False assms show ?thesis by (simp add: calculateMovingAverage_def)
  next
    case ge: False
    then have "\<not> int i < 2" by simp
    with False assms ge show ?thesis
      by (simp add: calculateMovingAverage_def Let_def slice_window3 [simplified] foldl_add_sum_list add.assoc)
  qed
qed

text \<open>
  C6. The 3-point trailing moving average keeps every bucket, gives no value
  (\<open>null\<close>) to the first two buckets and gives every later bucket the arithmetic mean of
  the mean-completion values of that bucket and its two predecessors; the series
  50, 60, 70, 80, 90 yields null, null, 60, 70, 80.
\<close>

theorem calculateMovingAverage_trailing3:
  "length (calculateMovingAverage data 3) = length data
   \<and> (\<forall>i<length data.
         MonthBucket.truncate (calculateMovingAverage data 3 ! i) = data ! i
       \<and> (i < 2 \<longrightarrow> movingAverage (calculateMovingAverage data 3 ! i) = None)
       \<and> (2 \<le> i \<longrightarrow> movingAverage (calculateMovingAverage data 3 ! i) =
             Some ((avgCompletion (data ! (i - 2)) + avgCompletion (data ! (i - 1))
                    + avgCompletion (data ! i)) / 3)))
   \<and> (map avgCompletion data = [50, 60, 70, 80, 90] \<longrightarrow>
        map movingAverage (calculateMovingAverage data 3) = [None, None, Some 60, Some 70, Some 80])"
proof (intro conjI allI impI)
  show "length (calculateMovingAverage data 3) = length data"
    by (rule length_calculateMovingAverage)
next
  fix i assume "i < length data"
  then show "MonthBucket.truncate (calculateMovingAverage data 3 ! i) = data ! i"
    by (simp add: calculateMovingAverage_nth MonthBucket.truncate_def MonthBucket.extend_def)
next
  fix i assume "i < length data" "i < 2"
  then show "movingAverage (calculateMovingAverage data 3 ! i) = None"
    by (simp add: calculateMovingAverage_nth MonthBucket.extend_def TrendPoint.fields_def)
next
  fix i assume "i < length data" "2 \<le> i"
  then show "movingAverage (calculateMovingAverage data 3 ! i) =
             Some ((avgCompletion (data ! (i - 2)) + avgCompletion (data ! (i - 1))
                    + avgCompletion (data ! i)) / 3)"
    by (simp add: calculateMovingAverage_nth MonthBucket.extend_def TrendPoint.fields_def)
next
  assume a: "map avgCompletion data = [50, 60, 70, 80, 90]"
  then have "length (map avgCompletion data) = 5" by simp
  then have len: "length data = 5" by simp
  have v: "avgCompletion (data ! 0) = 50" "avgCompletion (data ! 1) = 60"
    "avgCompletion (data ! 2) = 70" "avgCompletion (data ! 3) = 80" "avgCompletion (data ! 4) = 90"
    using len nth_map [of 0 data avgCompletion] nth_map [of 1 data avgCompletion]
      nth_map [of 2 data avgCompletion] nth_map [of 3 data avgCompletion]
      nth_map [of 4 data avgCompletion] unfolding a by simp_all
  have n: "movingAverage (calculateMovingAverage data 3 ! 0) = None"
    "movingAverage (calculateMovingAverage data 3 ! 1) = None"
    "movingAverage (calculateMovingAverage data 3 ! 2) = Some 60"
    "movingAverage (calculateMovingAverage data 3 ! 3) = Some 70"
    "movingAverage (calculateMovingAverage data 3 ! 4) = Some 80"
    using len v
    by (simp_all add: calculateMovingAverage_nth MonthBucket.extend_def TrendPoint.fields_def)
  show "map movingAverage (calculateMovingAverage data 3) = [None, None, Some 60, Some 70, Some 80]"
  proof (rule nth_equalityI)
    show "length (map movingAverage (calculateMovingAverage data 3))
        = length [None, None, Some 60, Some 70, Some (80::rat)]"
      using len by (simp add: length_calculateMovingAverage)
  next
    fix i assume "i < length (map movingAverage (calculateMovingAverage data 3))"
    then have i: "i < 5" using len by (simp add: length_calculateMovingAverage)
    then consider "i = 0" | "i = 1" | "i = 2" | "i = 3" | "i = 4" by linarith
    then show "map movingAverage (calculateMovingAverage data 3) ! i
        = [None, None, Some 60, Some 70, Some 80] ! i"
      using n len by cases (simp_all add: length_calculateMovingAverage)
  qed
qed

theorem calculateMovingAverage_trailing3_witness:
  "map movingAverage (calculateMovingAverage
      [sampleBucket ''Jan 2024'' 50, sampleBucket ''Feb 2024'' 60, sampleBucket ''Mar 2024'' 70,
       sampleBucket ''Apr 2024'' 80, sampleBucket ''May 2024'' 90] 3)
   = [None, None, Some 60, Some 70, Some 80]"
proof -
  have h: "map avgCompletion
      [sampleBucket ''Jan 2024'' 50, sampleBucket ''Feb 2024'' 60, sampleBucket ''Mar 2024'' 70,
       sampleBucket ''Apr 2024'' 80, sampleBucket ''May 2024'' 90] = [50, 60, 70, 80, 90]"
    by (simp add: sampleBucket_def)
  show ?thesis
    by (rule mp [OF calculateMovingAverage_trailing3 [THEN conjunct2, THEN conjunct2] h])
qed


section \<open>Properties of the group comparison KPIs\<close>

lemma calculateKpis_empty:
  "calculateKpis [] = Inr \<lparr> totalLearners = 0, avgCompletion_k = 0, avgPostScore = 0,
      improvement = 0, totalHours = 0, recordCount = 0 \<rparr>"
  by (simp add: calculateKpis_def)

lemma calculateKpis_nonempty:
  assumes "data \<noteq> []"
  shows "calculateKpis data = Inr \<lparr>
      totalLearners = Set_size (map traineeName data),
      avgCompletion_k = sum_list (map completionRate data) / of_nat (length data),
      avgPostScore = (if filter (\<lambda>d. postAssessmentScore d > 0) data = [] then 0
         else sum_list (map postAssessmentScore (filter (\<lambda>d. postAssessmentScore d > 0) data))
              / of_nat (length (filter (\<lambda>d. postAssessmentScore d > 0) data))),
      improvement =
        (if sum_list (map preAssessmentScore (filter (\<lambda>d. postAssessmentScore d > 0) data)) > 0
         then (sum_list (map postAssessmentScore (filter (\<lambda>d. postAssessmentScore d > 0) data))
               - sum_list (map preAssessmentScore (filter (\<lambda>d. postAssessmentScore d > 0) data)))
              / sum_list (map preAssessmentScore (filter (\<lambda>d. postAssessmentScore d > 0) data)) * 100
         else 0),
      totalHours = sum_list (map trainingHours data),
      recordCount = length data \<rparr>"
  using assms
  by (simp add: calculateKpis_def divide_checked_def Let_def foldl_add_sum_list)

text \<open>
  C7. An empty subset yields the all-zero KPI structure. Every subset yields a KPI
  structure, so no division by zero is ever reached. For a non-empty subset the
  improvement percentage is computed from the summed pre and post scores of the records
  with a positive post score, and is 0 when the pre-score sum is not positive.
\<close>

theorem calculateKpis_improvement_no_zero_division:
  "calculateKpis [] = Inr \<lparr> totalLearners = 0, avgCompletion_k = 0, avgPostScore = 0,
      improvement = 0, totalHours = 0, recordCount = 0 \<rparr>
   \<and> (\<exists>k. calculateKpis data = Inr k
        \<and> (data \<noteq> [] \<longrightarrow> improvement k =
             (let completed = filter (\<lambda>d. postAssessmentScore d > 0) data;
                  pre = sum_list (map preAssessmentScore completed);
                  post = sum_list (map postAssessmentScore completed)
              in if pre > 0 then (post - pre) / pre * 100 else 0)))"
proof (cases "data = []")
  case True
  then show ?thesis by (simp add: calculateKpis_empty)
next
  case False
  then show ?thesis
    by (simp add: calculateKpis_empty calculateKpis_nonempty Let_def)
qed

theorem calculateKpis_improvement_no_zero_division_witness:
  "calculateKpis
     [sampleRecord ''A'' ''a@x.com'' ''B1'' ''C1'' 100 80 1 \<lparr> preAssessmentScore := 50 \<rparr>,
      sampleRecord ''B'' ''b@x.com'' ''B1'' ''C1'' 50 40 1 \<lparr> preAssessmentScore := 30 \<rparr>,
      sampleRecord ''C'' ''c@x.com'' ''B1'' ''C1'' 0 0 1 \<lparr> preAssessmentScore := 70 \<rparr>]
   = Inr \<lparr> totalLearners = 3, avgCompletion_k = 50, avgPostScore = 60, improvement = 50,
           totalHours = 3, recordCount = 3 \<rparr>"
  using calculateKpis_improvement_no_zero_division
     [of "[sampleRecord ''A'' ''a@x.com'' ''B1'' ''C1'' 100 80 1 \<lparr> preAssessmentScore := 50 \<rparr>,
      sampleRecord ''B'' ''b@x.com'' ''B1'' ''C1'' 50 40 1 \<lparr> preAssessmentScore := 30 \<rparr>,
      sampleRecord ''C'' ''c@x.com'' ''B1'' ''C1'' 0 0 1 \<lparr> preAssessmentScore := 70 \<rparr>]"]
  by (simp add: calculateKpis_def divide_checked_def Set_size_def sampleRecord_def)

section \<open>Properties of dictionaries and grouping loops\<close>

lemma map_fst_dict_modify: "map fst (dict_modify m k f) = map fst m"
  by (induction m) (auto simp: dict_modify_def)

lemma map_of_dict_modify:
  "map_of (dict_modify m k f) k' = (if k' = k then map_option f (map_of m k) else map_of m k')"
  by (induction m) (auto simp: dict_modify_def)

lemma map_of_snoc_new:
  "map_of m k = None \<Longrightarrow> map_of (m @ [(k, v)]) k' = (if k' = k then Some v else map_of m k')"
  by (induction m) (auto split: if_splits)

lemma map_of_group_step:
  "map_of (group_step q keyOf init g m r) k =
     (if q r \<and> keyOf r = k then Some (g r (case map_of m k of None \<Rightarrow> init r | Some v \<Rightarrow> v))
      else map_of m k)"
  by (auto simp: group_step_def dict_has_def dict_set_def map_of_dict_modify map_of_snoc_new
      simp del: map_of_append)

lemma distinct_group_step:
  "distinct (map fst m) \<Longrightarrow> distinct (map fst (group_step q keyOf init g m r))"
  by (auto simp: group_step_def dict_has_def dict_set_def map_fst_dict_modify map_of_eq_None_iff)

lemma distinct_group_fold:
  "distinct (map fst m) \<Longrightarrow> distinct (map fst (foldl (group_step q keyOf init g) m rs))"
  by (induction rs arbitrary: m) (auto simp: distinct_group_step)

lemma map_of_group_fold:
  "map_of (foldl (group_step q keyOf init g) m rs) k =
     (case map_of m k of
        Some v \<Rightarrow> Some (foldl (\<lambda>v r. g r v) v (filter (\<lambda>r. q r \<and> keyOf r = k) rs))
      | None \<Rightarrow> (case filter (\<lambda>r. q r \<and> keyOf r = k) rs of
                   [] \<Rightarrow> None
                 | r0 # rest \<Rightarrow> Some (foldl (\<lambda>v r. g r v) (init r0) (r0 # rest))))"
proof (induction rs arbitrary: m)
  case Nil
  then show ?case by (simp split: option.splits)
next
  case (Cons r rs)
  show ?case
    by (simp add: Cons.IH map_of_group_step split: option.splits)
qed

lemma group_fold_entries:
  "(k, v) \<in> set (foldl (group_step q keyOf init g) [] rs) \<longleftrightarrow>
     (\<exists>r0 rest. filter (\<lambda>r. q r \<and> keyOf r = k) rs = r0 # rest
        \<and> v = foldl (\<lambda>v r. g r v) (init r0) (r0 # rest))"
proof -
  have d: "distinct (map fst (foldl (group_step q keyOf init g) [] rs))"
    by (rule distinct_group_fold) simp
  have "(k, v) \<in> set (foldl (group_step q keyOf init g) [] rs)
      \<longleftrightarrow> map_of (foldl (group_step q keyOf init g) [] rs) k = Some v"
    using d by simp
  then show ?thesis
    by (auto simp: map_of_group_fold split: list.splits)
qed

lemma filter_Cons_find: "filter P xs = x # rest \<Longrightarrow> find P xs = Some x"
  by (induction xs) (auto split: if_splits)


section \<open>Properties of the at-risk aggregation\<close>

lemma riskMap_step_group:
  "riskMap_step thr = group_step (\<lambda>r. record_reasons thr r \<noteq> []) traineeName
      (\<lambda>r. \<lparr> trainee = r, reasons = [] \<rparr>)
      (\<lambda>r e. e \<lparr> reasons := reasons e @ tagged_reasons thr r \<rparr>)"
  by (intro ext) (simp add: riskMap_step_def group_step_def Let_def)

lemma risk_entry_fold:
  "foldl (\<lambda>v r. v \<lparr> reasons := reasons v @ t r \<rparr>) e xs
     = e \<lparr> reasons := reasons e @ concat (map t xs) \<rparr>"
  by (induction xs arbitrary: e) auto

lemma record_reasons_flag:
  "record_reasons thr r \<noteq> [] \<longleftrightarrow>
     (completionRate r < of_int (AT_RISK_COMPLETION thr)
      \<or> (postAssessmentScore r > 0 \<and> postAssessmentScore r < of_int (AT_RISK_SCORE thr)))"
  by (auto simp: record_reasons_def Let_def)

lemma tagged_reasons_explicit:
  "tagged_reasons thr r =
     (if completionRate r < of_int (AT_RISK_COMPLETION thr)
      then [''Completion < '' @ show_int (AT_RISK_COMPLETION thr) @ ''% on '' @ [CHR 0x27]
              @ courseTitle r @ [CHR 0x27]]
      else [])
     @ (if postAssessmentScore r > 0 \<and> postAssessmentScore r < of_int (AT_RISK_SCORE thr)
        then [''Score < '' @ show_int (AT_RISK_SCORE thr) @ ''% on '' @ [CHR 0x27]
                @ courseTitle r @ [CHR 0x27]]
        else [])"
  by (simp add: tagged_reasons_def record_reasons_def Let_def)

lemma tagged_reasons_unflagged: "record_reasons thr r = [] \<Longrightarrow> tagged_reasons thr r = []"
  by (simp add: tagged_reasons_def)

lemma concat_tagged_filter:
  "concat (map (tagged_reasons thr) (filter (\<lambda>r. record_reasons thr r \<noteq> [] \<and> traineeName r = n) data))
     = concat (map (tagged_reasons thr) (filter (\<lambda>r. traineeName r = n) data))"
  by (induction data) (auto simp: tagged_reasons_unflagged)

lemma riskMap_entry_iff:
  "(n, e) \<in> set (foldl (riskMap_step thr) [] data) \<longleftrightarrow>
     (\<exists>r0 rest. filter (\<lambda>r. record_reasons thr r \<noteq> [] \<and> traineeName r = n) data = r0 # rest
        \<and> e = \<lparr> trainee = r0, reasons = concat (map (tagged_reasons thr) (filter (\<lambda>r. traineeName r = n) data)) \<rparr>)"
proof -
  have *: "foldl (\<lambda>v r. v \<lparr> reasons := reasons v @ tagged_reasons thr r \<rparr>) \<lparr> trainee = r0, reasons = [] \<rparr> (r0 # rest)
      = \<lparr> trainee = r0, reasons = concat (map (tagged_reasons thr) (filter (\<lambda>r. traineeName r = n) data)) \<rparr>"
    if "filter (\<lambda>r. record_reasons thr r \<noteq> [] \<and> traineeName r = n) data = r0 # rest" for r0 rest
  proof -
    have "concat (map (tagged_reasons thr) (r0 # rest))
        = concat (map (tagged_reasons thr) (filter (\<lambda>r. traineeName r = n) data))"
      using concat_tagged_filter [of thr n data] that by simp
    then show ?thesis
      by (simp only: risk_entry_fold) simp
  qed
  show ?thesis
    unfolding riskMap_step_group group_fold_entries
  proof (intro iffI; elim exE conjE)
    fix r0 rest
    assume f: "filter (\<lambda>r. record_reasons thr r \<noteq> [] \<and> traineeName r = n) data = r0 # rest"
      and e: "e = foldl (\<lambda>v r. v \<lparr> reasons := reasons v @ tagged_reasons thr r \<rparr>) \<lparr> trainee = r0, reasons = [] \<rparr> (r0 # rest)"
    show "\<exists>r0 rest. filter (\<lambda>r. record_reasons thr r \<noteq> [] \<and> traineeName r = n) data = r0 # rest
        \<and> e = \<lparr> trainee = r0, reasons = concat (map (tagged_reasons thr) (filter (\<lambda>r. traineeName r = n) data)) \<rparr>"
      by (intro exI conjI, rule f, simp only: e * [OF f])
  next
    fix r0 rest
    assume f: "filter (\<lambda>r. record_reasons thr r \<noteq> [] \<and> traineeName r = n) data = r0 # rest"
      and e: "e = \<lparr> trainee = r0, reasons = concat (map (tagged_reasons thr) (filter (\<lambda>r. traineeName r = n) data)) \<rparr>"
    show "\<exists>r0 rest. filter (\<lambda>r. record_reasons thr r \<noteq> [] \<and> traineeName r = n) data = r0 # rest
        \<and> e = foldl (\<lambda>v r. v \<lparr> reasons := reasons v @ tagged_reasons thr r \<rparr>) \<lparr> trainee = r0, reasons = [] \<rparr> (r0 # rest)"
      by (intro exI conjI, rule f, simp only: e * [OF f])
  qed
qed

lemma riskMap_key: 
  assumes "(n, e) \<in> set (foldl (riskMap_step thr) [] data)"
  shows "traineeName (trainee e) = n"
proof -
  from assms obtain r0 rest where f: "filter (\<lambda>r. record_reasons thr r \<noteq> [] \<and> traineeName r = n) data = r0 # rest"
    and e: "trainee e = r0" unfolding riskMap_entry_iff by auto
  from f have "r0 \<in> set (filter (\<lambda>r. record_reasons thr r \<noteq> [] \<and> traineeName r = n) data)" by simp
  with e show ?thesis by simp
qed

lemma atRisk_names:
  "map (\<lambda>e. traineeName (trainee e)) (atRiskTrainees data thr) = map fst (foldl (riskMap_step thr) [] data)"
  unfolding atRiskTrainees_def dict_values_def
  by (auto simp: riskMap_key)

lemma atRisk_distinct:
  "distinct (map (\<lambda>e. traineeName (trainee e)) (atRiskTrainees data thr))"
  unfolding atRisk_names riskMap_step_group by (rule distinct_group_fold) simp

lemma atRisk_member:
  "e \<in> set (atRiskTrainees data thr) \<longleftrightarrow>
     (\<exists>r0 rest. filter (\<lambda>r. record_reasons thr r \<noteq> [] \<and> traineeName r = traineeName (trainee e)) data = r0 # rest
        \<and> e = \<lparr> trainee = r0, reasons = concat (map (tagged_reasons thr)
                  (filter (\<lambda>r. traineeName r = traineeName (trainee e)) data)) \<rparr>)"
proof
  assume "e \<in> set (atRiskTrainees data thr)"
  then obtain n where m: "(n, e) \<in> set (foldl (riskMap_step thr) [] data)"
    by (auto simp: atRiskTrainees_def dict_values_def)
  then have "traineeName (trainee e) = n" by (rule riskMap_key)
  with m show "\<exists>r0 rest. filter (\<lambda>r. record_reasons thr r \<noteq> [] \<and> traineeName r = traineeName (trainee e)) data = r0 # rest
        \<and> e = \<lparr> trainee = r0, reasons = concat (map (tagged_reasons thr)
                  (filter (\<lambda>r. traineeName r = traineeName (trainee e)) data)) \<rparr>"
    by (simp add: riskMap_entry_iff)
next
  assume "\<exists>r0 rest. filter (\<lambda>r. record_reasons thr r \<noteq> [] \<and> traineeName r = traineeName (trainee e)) data = r0 # rest
        \<and> e = \<lparr> trainee = r0, reasons = concat (map (tagged_reasons thr)
                  (filter (\<lambda>r. traineeName r = traineeName (trainee e)) data)) \<rparr>"
  then have "(traineeName (trainee e), e) \<in> set (foldl (riskMap_step thr) [] data)"
    by (simp add: riskMap_entry_iff)
  then show "e \<in> set (atRiskTrainees data thr)"
    by (force simp: atRiskTrainees_def dict_values_def)
qed


lemma atRiskTrainees_example:
  assumes "traineeName r1 = traineeName r2" "completionRate r1 = 20" "completionRate r2 = 90"
    "\<not> (postAssessmentScore r1 > 0 \<and> postAssessmentScore r1 < 50)"
    "\<not> (postAssessmentScore r2 > 0 \<and> postAssessmentScore r2 < 50)"
  shows "atRiskTrainees [r1, r2] DEFAULT_THRESHOLDS =
    [\<lparr> trainee = r1, reasons = [''Completion < 30% on '' @ [CHR 0x27] @ courseTitle r1 @ [CHR 0x27]] \<rparr>]"
proof -
  have 1: "record_reasons DEFAULT_THRESHOLDS r1 = [''Completion < 30%'']"
    using assms by (simp add: record_reasons_def DEFAULT_THRESHOLDS_def Let_def show_int_def digit_char_def)
  have 2: "record_reasons DEFAULT_THRESHOLDS r2 = []"
    using assms by (simp add: record_reasons_def DEFAULT_THRESHOLDS_def Let_def)
  show ?thesis
    by (simp add: atRiskTrainees_def riskMap_step_def tagged_reasons_def 1 2 dict_values_def
        dict_modify_def dict_set_def dict_has_def)
qed

lemma atRisk_row_iff:
  "(\<exists>e\<in>set (atRiskTrainees data thr). traineeName (trainee e) = n) \<longleftrightarrow>
          (\<exists>r\<in>set data. traineeName r = n
             \<and> (completionRate r < of_int (AT_RISK_COMPLETION thr)
                \<or> (postAssessmentScore r > 0 \<and> postAssessmentScore r < of_int (AT_RISK_SCORE thr))))"
proof -
  have "(\<exists>e\<in>set (atRiskTrainees data thr). traineeName (trainee e) = n)
      \<longleftrightarrow> filter (\<lambda>r. record_reasons thr r \<noteq> [] \<and> traineeName r = n) data \<noteq> []"
  proof
    assume "\<exists>e\<in>set (atRiskTrainees data thr). traineeName (trainee e) = n"
    then obtain e where e: "e \<in> set (atRiskTrainees data thr)" and n: "traineeName (trainee e) = n"
      by blast
    from e [unfolded atRisk_member] n
    show "filter (\<lambda>r. record_reasons thr r \<noteq> [] \<and> traineeName r = n) data \<noteq> []"
      by auto
  next
    assume "filter (\<lambda>r. record_reasons thr r \<noteq> [] \<and> traineeName r = n) data \<noteq> []"
    then obtain r0 rest where f: "filter (\<lambda>r. record_reasons thr r \<noteq> [] \<and> traineeName r = n) data = r0 # rest"
      by (cases "filter (\<lambda>r. record_reasons thr r \<noteq> [] \<and> traineeName r = n) data") auto
    then have "(n, \<lparr> trainee = r0, reasons = concat (map (tagged_reasons thr) (filter (\<lambda>r. traineeName r = n) data)) \<rparr>)
        \<in> set (foldl (riskMap_step thr) [] data)"
      unfolding riskMap_entry_iff by blast
    then have "\<exists>e. (n, e) \<in> set (foldl (riskMap_step thr) [] data)" by blast
    then obtain e where e: "(n, e) \<in> set (foldl (riskMap_step thr) [] data)" by blast
    then have "e \<in> set (atRiskTrainees data thr)"
      by (force simp: atRiskTrainees_def dict_values_def)
    with riskMap_key [OF e] show "\<exists>e\<in>set (atRiskTrainees data thr). traineeName (trainee e) = n"
      by blast
  qed
  also have "\<dots> \<longleftrightarrow> (\<exists>r\<in>set data. traineeName r = n
             \<and> (completionRate r < of_int (AT_RISK_COMPLETION thr)
                \<or> (postAssessmentScore r > 0 \<and> postAssessmentScore r < of_int (AT_RISK_SCORE thr))))"
    by (auto simp: filter_empty_conv record_reasons_flag)
  finally show ?thesis .
qed

lemma atRisk_first_flagged:
  assumes "e \<in> set (atRiskTrainees data thr)"
  shows "find (\<lambda>r. traineeName r = traineeName (trainee e)
             \<and> (completionRate r < of_int (AT_RISK_COMPLETION thr)
                \<or> (postAssessmentScore r > 0 \<and> postAssessmentScore r < of_int (AT_RISK_SCORE thr))))
           data = Some (trainee e)"
proof -
  from assms [unfolded atRisk_member] obtain r0 rest where
    f: "filter (\<lambda>r. record_reasons thr r \<noteq> [] \<and> traineeName r = traineeName (trainee e)) data = r0 # rest"
    and eq: "e = \<lparr> trainee = r0, reasons = concat (map (tagged_reasons thr)
                  (filter (\<lambda>r. traineeName r = traineeName (trainee e)) data)) \<rparr>" by blast
  have e: "trainee e = r0" by (subst eq) simp
  have "(\<lambda>r. record_reasons thr r \<noteq> [] \<and> traineeName r = traineeName (trainee e))
      = (\<lambda>r. traineeName r = traineeName (trainee e)
             \<and> (completionRate r < of_int (AT_RISK_COMPLETION thr)
                \<or> (postAssessmentScore r > 0 \<and> postAssessmentScore r < of_int (AT_RISK_SCORE thr))))"
    by (auto simp: record_reasons_flag)
  with f e show ?thesis by (simp add: filter_Cons_find)
qed

lemma dict_values_modify_trainee:
  "map trainee (dict_values (dict_modify m k (\<lambda>e. e \<lparr> reasons := f e \<rparr>))) = map trainee (dict_values m)"
  by (induction m) (auto simp: dict_values_def dict_modify_def)

lemma atRisk_append_flagged:
  assumes "\<exists>e\<in>set (atRiskTrainees data thr). traineeName (trainee e) = traineeName r"
  shows "map trainee (atRiskTrainees (data @ [r]) thr) = map trainee (atRiskTrainees data thr)"
proof -
  from assms obtain e where "e \<in> set (atRiskTrainees data thr)" "traineeName (trainee e) = traineeName r"
    by blast
  then obtain n where "(n, e) \<in> set (foldl (riskMap_step thr) [] data)"
    by (auto simp: atRiskTrainees_def dict_values_def)
  with riskMap_key [OF this] \<open>traineeName (trainee e) = traineeName r\<close>
  have "(traineeName r, e) \<in> set (foldl (riskMap_step thr) [] data)" by simp
  then have "dict_has (foldl (riskMap_step thr) [] data) (traineeName r)"
    by (force simp: dict_has_def map_of_eq_None_iff)
  then show ?thesis
    by (simp add: atRiskTrainees_def riskMap_step_def Let_def dict_values_modify_trainee)
qed

text \<open>
  C5. The at-risk aggregation has at most one row per trainee name; a trainee has a row
  exactly when one of their records is below the completion threshold or has a positive
  post-assessment score below the score threshold; the reasons of a row are, in input
  order over that trainee's records, one course-tagged string per satisfied condition,
  so an unflagged record contributes nothing. A trainee with a record at completion 20
  and a record at completion 90, neither with a flagged score, gets one row with the
  single reason naming the first record's course.
\<close>

theorem atRiskTrainees_grouping:
  "distinct (map (\<lambda>e. traineeName (trainee e)) (atRiskTrainees data thr))
   \<and> (\<forall>n. (\<exists>e\<in>set (atRiskTrainees data thr). traineeName (trainee e) = n) \<longleftrightarrow>
          (\<exists>r\<in>set data. traineeName r = n
             \<and> (completionRate r < of_int (AT_RISK_COMPLETION thr)
                \<or> (postAssessmentScore r > 0 \<and> postAssessmentScore r < of_int (AT_RISK_SCORE thr)))))
   \<and> (\<forall>e\<in>set (atRiskTrainees data thr). reasons e = concat (map (\<lambda>r.
          (if completionRate r < of_int (AT_RISK_COMPLETION thr)
           then [''Completion < '' @ show_int (AT_RISK_COMPLETION thr) @ ''% on '' @ [CHR 0x27]
                   @ courseTitle r @ [CHR 0x27]]
           else [])
          @ (if postAssessmentScore r > 0 \<and> postAssessmentScore r < of_int (AT_RISK_SCORE thr)
             then [''Score < '' @ show_int (AT_RISK_SCORE thr) @ ''% on '' @ [CHR 0x27]
                     @ courseTitle r @ [CHR 0x27]]
             else []))
        (filter (\<lambda>r. traineeName r = traineeName (trainee e)) data)))
   \<and> (traineeName r1 = traineeName r2 \<and> completionRate r1 = 20 \<and> completionRate r2 = 90
        \<and> \<not> (postAssessmentScore r1 > 0 \<and> postAssessmentScore r1 < 50)
        \<and> \<not> (postAssessmentScore r2 > 0 \<and> postAssessmentScore r2 < 50)
      \<longrightarrow> atRiskTrainees [r1, r2] DEFAULT_THRESHOLDS =
            [\<lparr> trainee = r1,
               reasons = [''Completion < 30% on '' @ [CHR 0x27] @ courseTitle r1 @ [CHR 0x27]] \<rparr>])"
proof (intro conjI allI ballI impI)
  show "distinct (map (\<lambda>e. traineeName (trainee e)) (atRiskTrainees data thr))"
    by (rule atRisk_distinct)
next
  fix n
  show "(\<exists>e\<in>set (atRiskTrainees data thr). traineeName (trainee e) = n) \<longleftrightarrow>
          (\<exists>r\<in>set data. traineeName r = n
             \<and> (completionRate r < of_int (AT_RISK_COMPLETION thr)
                \<or> (postAssessmentScore r > 0 \<and> postAssessmentScore r < of_int (AT_RISK_SCORE thr))))"
    by (rule atRisk_row_iff)
next
  fix e assume "e \<in> set (atRiskTrainees data thr)"
  then have "reasons e = concat (map (tagged_reasons thr)
                  (filter (\<lambda>r. traineeName r = traineeName (trainee e)) data))"
    unfolding atRisk_member by (elim exE conjE) (erule ssubst, simp)
  also have "tagged_reasons thr = (\<lambda>r.
          (if completionRate r < of_int (AT_RISK_COMPLETION thr)
           then [''Completion < '' @ show_int (AT_RISK_COMPLETION thr) @ ''% on '' @ [CHR 0x27]
                   @ courseTitle r @ [CHR 0x27]]
           else [])
          @ (if postAssessmentScore r > 0 \<and> postAssessmentScore r < of_int (AT_RISK_SCORE thr)
             then [''Score < '' @ show_int (AT_RISK_SCORE thr) @ ''% on '' @ [CHR 0x27]
                     @ courseTitle r @ [CHR 0x27]]
             else []))"
    by (intro ext) (rule tagged_reasons_explicit)
  finally show "reasons e = concat (map (\<lambda>r.
          (if completionRate r < of_int (AT_RISK_COMPLETION thr)
           then [''Completion < '' @ show_int (AT_RISK_COMPLETION thr) @ ''% on '' @ [CHR 0x27]
                   @ courseTitle r @ [CHR 0x27]]
           else [])
          @ (if postAssessmentScore r > 0 \<and> postAssessmentScore r < of_int (AT_RISK_SCORE thr)
             then [''Score < '' @ show_int (AT_RISK_SCORE thr) @ ''% on '' @ [CHR 0x27]
                     @ courseTitle r @ [CHR 0x27]]
             else []))
        (filter (\<lambda>r. traineeName r = traineeName (trainee e)) data))" .
next
  assume "traineeName r1 = traineeName r2 \<and> completionRate r1 = 20 \<and> completionRate r2 = 90
        \<and> \<not> (postAssessmentScore r1 > 0 \<and> postAssessmentScore r1 < 50)
        \<and> \<not> (postAssessmentScore r2 > 0 \<and> postAssessmentScore r2 < 50)"
  then show "atRiskTrainees [r1, r2] DEFAULT_THRESHOLDS =
            [\<lparr> trainee = r1,
               reasons = [''Completion < 30% on '' @ [CHR 0x27] @ courseTitle r1 @ [CHR 0x27]] \<rparr>]"
    by (intro atRiskTrainees_example) simp_all
qed


theorem atRiskTrainees_grouping_witness:
  "atRiskTrainees
     [sampleRecord ''A'' ''a@x.com'' ''B1'' ''C1'' 20 0 5,
      sampleRecord ''A'' ''a@x.com'' ''B1'' ''C2'' 90 0 7] DEFAULT_THRESHOLDS
   = [\<lparr> trainee = sampleRecord ''A'' ''a@x.com'' ''B1'' ''C1'' 20 0 5,
        reasons = [''Completion < 30% on '' @ [CHR 0x27] @ ''C1'' @ [CHR 0x27]] \<rparr>]"
proof -
  have h: "traineeName (sampleRecord ''A'' ''a@x.com'' ''B1'' ''C1'' 20 0 5)
        = traineeName (sampleRecord ''A'' ''a@x.com'' ''B1'' ''C2'' 90 0 7)
      \<and> completionRate (sampleRecord ''A'' ''a@x.com'' ''B1'' ''C1'' 20 0 5) = 20
      \<and> completionRate (sampleRecord ''A'' ''a@x.com'' ''B1'' ''C2'' 90 0 7) = 90
      \<and> \<not> (postAssessmentScore (sampleRecord ''A'' ''a@x.com'' ''B1'' ''C1'' 20 0 5) > 0
           \<and> postAssessmentScore (sampleRecord ''A'' ''a@x.com'' ''B1'' ''C1'' 20 0 5) < 50)
      \<and> \<not> (postAssessmentScore (sampleRecord ''A'' ''a@x.com'' ''B1'' ''C2'' 90 0 7) > 0
           \<and> postAssessmentScore (sampleRecord ''A'' ''a@x.com'' ''B1'' ''C2'' 90 0 7) < 50)"
    by (simp add: sampleRecord_def)
  have c: "courseTitle (sampleRecord ''A'' ''a@x.com'' ''B1'' ''C1'' 20 0 5) = ''C1''"
    by (simp add: sampleRecord_def)
  show ?thesis
    using mp [OF atRiskTrainees_grouping
        [of "[sampleRecord ''A'' ''a@x.com'' ''B1'' ''C1'' 20 0 5,
              sampleRecord ''A'' ''a@x.com'' ''B1'' ''C2'' 90 0 7]" DEFAULT_THRESHOLDS
            "sampleRecord ''A'' ''a@x.com'' ''B1'' ''C1'' 20 0 5"
            "sampleRecord ''A'' ''a@x.com'' ''B1'' ''C2'' 90 0 7",
          THEN conjunct2, THEN conjunct2, THEN conjunct2] h]
    unfolding c .
qed

text \<open>
  C10. Every row of the at-risk table takes its branch, supervisor and email from the
  first record of that trainee, in input order, that is flagged. A further flagged
  record of a trainee who already has a row leaves the identity fields of all rows as
  they are.
\<close>

theorem atRiskTraineesData_identity_first_flagged:
  "(\<forall>row\<in>set (atRiskTraineesData data thr). \<exists>t.
       find (\<lambda>r. traineeName r = traineeName_r row
             \<and> (completionRate r < of_int (AT_RISK_COMPLETION thr)
                \<or> (postAssessmentScore r > 0 \<and> postAssessmentScore r < of_int (AT_RISK_SCORE thr))))
          data = Some t
       \<and> branch_r row = branch t \<and> supervisor_r row = supervisor t \<and> email_r row = email t)
   \<and> ((\<exists>r'\<in>set data. traineeName r' = traineeName r
          \<and> (completionRate r' < of_int (AT_RISK_COMPLETION thr)
             \<or> (postAssessmentScore r' > 0 \<and> postAssessmentScore r' < of_int (AT_RISK_SCORE thr))))
       \<longrightarrow> map (\<lambda>row. (traineeName_r row, branch_r row, supervisor_r row, email_r row))
              (atRiskTraineesData (data @ [r]) thr)
           = map (\<lambda>row. (traineeName_r row, branch_r row, supervisor_r row, email_r row))
              (atRiskTraineesData data thr))"
proof (intro conjI ballI impI)
  fix row assume "row \<in> set (atRiskTraineesData data thr)"
  then obtain e where e: "e \<in> set (atRiskTrainees data thr)"
    and row: "row = \<lparr> traineeName_r = traineeName (trainee e), branch_r = branch (trainee e),
         supervisor_r = supervisor (trainee e), reasons_r = Array_join (reasons e) ''; '',
         email_r = email (trainee e) \<rparr>"
    by (auto simp: atRiskTraineesData_def)
  from atRisk_first_flagged [OF e] row
  show "\<exists>t. find (\<lambda>r. traineeName r = traineeName_r row
             \<and> (completionRate r < of_int (AT_RISK_COMPLETION thr)
                \<or> (postAssessmentScore r > 0 \<and> postAssessmentScore r < of_int (AT_RISK_SCORE thr))))
          data = Some t
       \<and> branch_r row = branch t \<and> supervisor_r row = supervisor t \<and> email_r row = email t"
    by simp
next
  assume "\<exists>r'\<in>set data. traineeName r' = traineeName r
          \<and> (completionRate r' < of_int (AT_RISK_COMPLETION thr)
             \<or> (postAssessmentScore r' > 0 \<and> postAssessmentScore r' < of_int (AT_RISK_SCORE thr)))"
  then have "\<exists>e\<in>set (atRiskTrainees data thr). traineeName (trainee e) = traineeName r"
    by (simp only: atRisk_row_iff)
  then have "map trainee (atRiskTrainees (data @ [r]) thr) = map trainee (atRiskTrainees data thr)"
    by (rule atRisk_append_flagged)
  then have "map ((\<lambda>t. (traineeName t, branch t, supervisor t, email t)) \<circ> trainee) (atRiskTrainees (data @ [r]) thr)
      = map ((\<lambda>t. (traineeName t, branch t, supervisor t, email t)) \<circ> trainee) (atRiskTrainees data thr)"
    by (simp only: map_map [symmetric])
  then show "map (\<lambda>row. (traineeName_r row, branch_r row, supervisor_r row, email_r row))
              (atRiskTraineesData (data @ [r]) thr)
           = map (\<lambda>row. (traineeName_r row, branch_r row, supervisor_r row, email_r row))
              (atRiskTraineesData data thr)"
    by (simp add: atRiskTraineesData_def comp_def)
qed

theorem atRiskTraineesData_identity_first_flagged_witness:
  "map (\<lambda>row. (traineeName_r row, branch_r row, supervisor_r row, email_r row))
     (atRiskTraineesData
        ([sampleRecord ''A'' ''a@x.com'' ''B1'' ''C1'' 20 0 5]
          @ [sampleRecord ''A'' ''other@x.com'' ''B2'' ''C2'' 10 0 7]) DEFAULT_THRESHOLDS)
   = [(''A'', ''B1'', ''S'', ''a@x.com'')]"
  using atRiskTraineesData_identity_first_flagged
     [of "[sampleRecord ''A'' ''a@x.com'' ''B1'' ''C1'' 20 0 5]" DEFAULT_THRESHOLDS
         "sampleRecord ''A'' ''other@x.com'' ''B2'' ''C2'' 10 0 7"]
  by (simp add: sampleRecord_def DEFAULT_THRESHOLDS_def atRiskTraineesData_def atRiskTrainees_def
      riskMap_step_def record_reasons_def tagged_reasons_def dict_values_def dict_modify_def
      dict_set_def dict_has_def Let_def)

section \<open>Properties of sorting, indexing and rounding\<close>

lemma set_Array_insert: "set (Array_insert cmp x ys) = insert x (set ys)"
  by (induction ys) auto

lemma length_Array_insert: "length (Array_insert cmp x ys) = Suc (length ys)"
  by (induction ys) auto


lemma set_Array_sort: "set (Array_sort cmp xs) = set xs"
  by (induction xs) (auto simp: Array_sort_def set_Array_insert)

lemma length_Array_sort: "length (Array_sort cmp xs) = length xs"
  by (induction xs) (auto simp: Array_sort_def length_Array_insert)




lemma length_map_index: "length (map_index f xs) = length xs"
  by (simp add: map_index_def)

lemma nth_map_index: "i < length xs \<Longrightarrow> map_index f xs ! i = f (xs ! i) i"
  by (simp add: map_index_def nth_enumerate_eq)


section \<open>Properties of the Top Trainees leaderboard\<close>

lemma dict_modify_twice:
  "dict_modify (dict_modify m k f) k g = dict_modify m k (\<lambda>v. g (f v))"
  by (induction m) (auto simp: dict_modify_def)




lemma group_fold_keys:
  "k \<in> fst ` set (foldl (group_step q keyOf init g) [] rs) \<longleftrightarrow> (\<exists>r\<in>set rs. q r \<and> keyOf r = k)"
proof -
  have "k \<in> fst ` set (foldl (group_step q keyOf init g) [] rs)
      \<longleftrightarrow> map_of (foldl (group_step q keyOf init g) [] rs) k \<noteq> None"
    by (simp add: map_of_eq_None_iff)
  also have "\<dots> \<longleftrightarrow> filter (\<lambda>r. q r \<and> keyOf r = k) rs \<noteq> []"
    by (simp add: map_of_group_fold split: list.splits)
  also have "\<dots> \<longleftrightarrow> (\<exists>r\<in>set rs. q r \<and> keyOf r = k)"
    by (auto simp: filter_empty_conv)
  finally show ?thesis .
qed

lemma map_map_index:
  assumes "\<And>x i. h (f x i) = h' x"
  shows "map h (map_index f xs) = map h' xs"
  by (rule nth_equalityI) (simp_all add: length_map_index nth_map_index assms)
















section \<open>Properties of the Top Branches leaderboard\<close>

lemma branchRates_update_group:
  "branchRates_update = group_step (\<lambda>d. True) branch
      (\<lambda>d. \<lparr> totalRate = 0, count_b = 0, trainees = [] \<rparr>)
      (\<lambda>d s. s \<lparr> totalRate := totalRate s + completionRate d, count_b := count_b s + 1,
                  trainees := Set_add (trainees s) (traineeName d) \<rparr>)"
  by (intro ext) (simp add: branchRates_update_def group_step_def dict_modify_twice)

lemma name_b_branchRow: "name_b (branchRow p) = fst p"
  by (cases p) (simp add: branchRow_def)

lemma branchRows_names: "set (map name_b (branchRows m)) = fst ` set m"
proof -
  have "map name_b (branchRows m)
      = map name_b (Array_sort (\<lambda>a b. avgRate b - avgRate a) (map branchRow m))"
    unfolding branchRows_def dict_entries_def
    by (rule map_map_index) (simp add: BranchRow.extend_def)
  then show ?thesis
    by (simp add: set_Array_sort image_image name_b_branchRow)
qed

lemma topBranches_names: "set (map name_b (topBranches data)) = branch ` set data"
proof -
  have "k \<in> fst ` set (foldl branchRates_update [] data) \<longleftrightarrow> k \<in> branch ` set data" for k
    unfolding branchRates_update_group group_fold_keys by auto
  then show ?thesis
    unfolding topBranches_def branchRows_names by blast
qed

lemma foldl_guard_filter:
  "foldl (\<lambda>m d. if p d then m else f m d) m0 xs = foldl f m0 (filter (\<lambda>d. \<not> p d) xs)"
  by (induction xs arbitrary: m0) auto

lemma topBranches_guarded_filter:
  "topBranches_guarded data = topBranches (filter (\<lambda>d. branch d \<noteq> []) data)"
  by (simp add: topBranches_guarded_def topBranches_def foldl_guard_filter)

lemma topBranches_guarded_no_empty_name:
  "\<forall>row\<in>set (topBranches_guarded data). name_b row \<noteq> []"
proof
  fix row assume "row \<in> set (topBranches_guarded data)"
  then have "name_b row \<in> set (map name_b (topBranches (filter (\<lambda>d. branch d \<noteq> []) data)))"
    by (simp add: topBranches_guarded_filter)
  then show "name_b row \<noteq> []"
    unfolding topBranches_names by auto
qed

text \<open>
  C4. In \<open>components/sections/Leaderboard.tsx\<close> the loop of \<open>topBranches\<close> has no guard
  on the branch: a record whose branch is the empty string opens a group with the empty
  name, and the leaderboard shows a row for it, with that record's completion rate and
  trainee.
\<close>

theorem topBranches_empty_branch_row:
  "topBranches [sampleRecord ''A'' ''a@x.com'' [] ''C1'' 20 0 5,
                sampleRecord ''B'' ''b@x.com'' ''B2'' ''C1'' 90 0 7]
   = [\<lparr> name_b = ''B2'', avgRate = 90, traineeInfo = ''(1 trainees)'', traineeCount = 1,
         rank_b = 1 \<rparr>,
      \<lparr> name_b = [], avgRate = 20, traineeInfo = ''(1 trainees)'', traineeCount = 1,
         rank_b = 2 \<rparr>]"
  by code_simp

section \<open>Properties of the table view state\<close>









lemma length_sortedItems: "length (sortedItems str h) = length (filteredItems str h)"
  by (simp add: sortedItems_def Let_def length_Array_sort split: option.splits)





lemma pageCount_cases:
  assumes "1 \<le> rowsPerPage h"
  shows "(length (filteredItems str h) = 0 \<longrightarrow> pageCount str h = 1)
    \<and> (length (filteredItems str h) > 0 \<longrightarrow>
          pageCount str h = \<lceil>(of_nat (length (filteredItems str h)) :: rat) / of_nat (rowsPerPage h)\<rceil>
        \<and> (pageCount str h - 1) * int (rowsPerPage h) < int (length (filteredItems str h))
        \<and> int (length (filteredItems str h)) \<le> pageCount str h * int (rowsPerPage h))"
proof (intro conjI impI)
  assume "length (filteredItems str h) = 0"
  then show "pageCount str h = 1"
    by (simp add: pageCount_def length_sortedItems)
next
  let ?n = "length (filteredItems str h)"
  let ?r = "rowsPerPage h"
  let ?x = "(of_nat ?n :: rat) / of_nat ?r"
  assume n: "?n > 0"
  have r: "(0::rat) < of_nat ?r" using assms by simp
  from n r have "0 < ?x" by simp
  then have "0 < \<lceil>?x\<rceil>" by (simp add: ceiling_less_iff)
  then have "\<lceil>?x\<rceil> \<noteq> 0" by linarith
  then have nz: "(\<lceil>?x\<rceil> = 0) = False" by (rule eq_False [THEN iffD2])
  show pc: "pageCount str h = \<lceil>?x\<rceil>"
    by (simp only: pageCount_def length_sortedItems Let_def nz if_False)
  have lo: "of_int \<lceil>?x\<rceil> - 1 < ?x" by linarith
  have hi: "?x \<le> of_int \<lceil>?x\<rceil>" by (rule le_of_int_ceiling)
  have "(of_int \<lceil>?x\<rceil> - 1) * of_nat ?r < (of_nat ?n :: rat)"
    using lo by (simp only: pos_less_divide_eq [OF r])
  moreover have "(of_nat ?n :: rat) \<le> of_int \<lceil>?x\<rceil> * of_nat ?r"
    using hi by (simp only: pos_divide_le_eq [OF r])
  ultimately have "(of_int ((\<lceil>?x\<rceil> - 1) * int ?r) :: rat) < of_int (int ?n)"
    "(of_int (int ?n) :: rat) \<le> of_int (\<lceil>?x\<rceil> * int ?r)"
    by simp_all
  then have "(\<lceil>?x\<rceil> - 1) * int ?r < int ?n" "int ?n \<le> \<lceil>?x\<rceil> * int ?r"
    by (simp_all only: of_int_less_iff of_int_le_iff)
  then show "(pageCount str h - 1) * int ?r < int ?n" "int ?n \<le> pageCount str h * int ?r"
    unfolding pc by simp_all
qed

lemma pageCount_ge_1:
  assumes "1 \<le> rowsPerPage h"
  shows "1 \<le> pageCount str h"
proof -
  define c where "c = \<lceil>(of_nat (length (sortedItems str h)) :: rat) / of_nat (rowsPerPage h)\<rceil>"
  have "(0::rat) \<le> of_nat (length (sortedItems str h)) / of_nat (rowsPerPage h)" by simp
  then have "0 \<le> c" unfolding c_def by linarith
  then have "1 \<le> (if c = 0 then 1 else c)" by auto
  then show ?thesis unfolding pageCount_def Let_def c_def .
qed

lemma rowsPerPage_step: "rowsPerPage (step str h e) = rowsPerPage h"
  by (cases e)
    (simp_all add: requestSort_def handleSearchChange_def nextPage_def prevPage_def setPage_def
      syncPage_def Let_def)

lemma rowsPerPage_run: "rowsPerPage (run str h es) = rowsPerPage h"
  unfolding run_def by (induction es arbitrary: h) (simp_all add: rowsPerPage_step)

lemma currentPage_step:
  assumes "1 \<le> rowsPerPage h" "1 \<le> currentPage h"
  shows "1 \<le> currentPage (step str h e)"
proof (cases e)
  case NextPage
  then show ?thesis using assms pageCount_ge_1 [OF assms(1), of str] by (simp add: nextPage_def)
next
  case (SetPage p)
  then show ?thesis by (simp add: setPage_def)
next
  case SyncPage
  then show ?thesis using assms pageCount_ge_1 [OF assms(1), of str]
    by (simp add: syncPage_def actualCurrentPage_def)
qed (use assms in \<open>simp_all add: requestSort_def handleSearchChange_def prevPage_def Let_def\<close>)

lemma currentPage_run:
  assumes "1 \<le> rowsPerPage h" "1 \<le> currentPage h"
  shows "1 \<le> currentPage (run str h es)"
  using assms unfolding run_def
proof (induction es arbitrary: h)
  case Nil
  then show ?case by simp
next
  case (Cons e es)
  have "1 \<le> rowsPerPage (step str h e)" using Cons.prems by (simp add: rowsPerPage_step)
  moreover have "1 \<le> currentPage (step str h e)" using Cons.prems by (rule currentPage_step)
  ultimately show ?case using Cons.IH by simp
qed

lemma actualCurrentPage_range:
  assumes "1 \<le> rowsPerPage h" "1 \<le> currentPage h"
  shows "1 \<le> actualCurrentPage str h \<and> actualCurrentPage str h \<le> pageCount str h"
  using assms pageCount_ge_1 [OF assms(1), of str] by (simp add: actualCurrentPage_def)

lemma pageCount_no_search:
  assumes "searchTerm h = []"
  shows "pageCount str h
     = (let c = \<lceil>(of_nat (length (items h)) :: rat) / of_nat (rowsPerPage h)\<rceil> in if c = 0 then 1 else c)"
  using assms by (simp add: pageCount_def length_sortedItems filteredItems_def)

lemma ceiling_12_10: "\<lceil>(6::rat) / 5\<rceil> = 2"
  by (rule ceiling_unique) simp_all

lemma ceiling_5_10: "\<lceil>(1::rat) / 2\<rceil> = 1"
  by (rule ceiling_unique) simp_all

lemma pageCount_12_10:
  assumes "length (items h) = 12" "rowsPerPage h = 10" "searchTerm h = []"
  shows "pageCount str h = 2"
  using assms by (simp add: pageCount_no_search ceiling_12_10 Let_def)

lemma pageCount_5_10:
  assumes "length (items h) = 5" "rowsPerPage h = 10" "searchTerm h = []"
  shows "pageCount str h = 1"
  using assms by (simp add: pageCount_no_search ceiling_5_10 Let_def)

text \<open>
  C9. With at least one row per page, in every state that the hook can reach the page
  count is 1 when no item passes the search and otherwise the ceiling of the number of
  filtered items divided by the rows per page, and the exposed current page lies between
  1 and the page count. Twelve rows at ten per page make two pages; after \<open>nextPage()\<close>
  from page 1 and a render with five rows the exposed current page is 1 again.
\<close>

theorem pageCount_and_currentPage_range:
  "(1 \<le> rpp \<longrightarrow>
     (let h = run str (useDataTable items0 initialSortKey rpp) events;
          n = length (filteredItems str h)
      in (n = 0 \<longrightarrow> pageCount str h = 1)
       \<and> (n > 0 \<longrightarrow> pageCount str h = \<lceil>(of_nat n :: rat) / of_nat rpp\<rceil>
              \<and> (pageCount str h - 1) * int rpp < int n \<and> int n \<le> pageCount str h * int rpp)
       \<and> 1 \<le> actualCurrentPage str h \<and> actualCurrentPage str h \<le> pageCount str h))
   \<and> (length items12 = 12 \<longrightarrow> pageCount str (useDataTable items12 initialSortKey 10) = 2)
   \<and> (length items12 = 12 \<and> length items5 = 5 \<longrightarrow>
        currentPage (run str (useDataTable items12 initialSortKey 10) [NextPage]) = 2
      \<and> actualCurrentPage str
           (run str (useDataTable items12 initialSortKey 10) [NextPage, NewItems items5]) = 1
      \<and> currentPage
           (run str (useDataTable items12 initialSortKey 10) [NextPage, NewItems items5, SyncPage]) = 1)"
proof (intro conjI impI)
  assume rpp: "1 \<le> rpp"
  define h where "h = run str (useDataTable items0 initialSortKey rpp) events"
  have r: "rowsPerPage h = rpp"
    unfolding h_def by (simp add: rowsPerPage_run) (simp add: useDataTable_def)
  have c: "1 \<le> currentPage h"
    unfolding h_def using rpp by (intro currentPage_run) (simp_all add: useDataTable_def)
  from rpp r have r1: "1 \<le> rowsPerPage h" by simp
  show "let h = run str (useDataTable items0 initialSortKey rpp) events;
          n = length (filteredItems str h)
      in (n = 0 \<longrightarrow> pageCount str h = 1)
       \<and> (n > 0 \<longrightarrow> pageCount str h = \<lceil>(of_nat n :: rat) / of_nat rpp\<rceil>
              \<and> (pageCount str h - 1) * int rpp < int n \<and> int n \<le> pageCount str h * int rpp)
       \<and> 1 \<le> actualCurrentPage str h \<and> actualCurrentPage str h \<le> pageCount str h"
    unfolding Let_def h_def [symmetric]
    using pageCount_cases [OF r1, of str] actualCurrentPage_range [OF r1 c, of str]
    unfolding r by blast
next
  assume "length items12 = 12"
  then show "pageCount str (useDataTable items12 initialSortKey 10) = 2"
    by (intro pageCount_12_10) (simp_all add: useDataTable_def)
next
  assume a: "length items12 = 12 \<and> length items5 = 5"
  have p: "pageCount str (useDataTable items12 initialSortKey 10) = 2"
    using a by (intro pageCount_12_10) (simp_all add: useDataTable_def)
  have n: "run str (useDataTable items12 initialSortKey 10) [NextPage]
      = (useDataTable items12 initialSortKey 10) \<lparr> currentPage := 2 \<rparr>"
    by (simp add: run_def nextPage_def p) (simp add: useDataTable_def)
  show "currentPage (run str (useDataTable items12 initialSortKey 10) [NextPage]) = 2"
    by (simp add: n)
  have m: "run str (useDataTable items12 initialSortKey 10) [NextPage, NewItems items5]
      = (useDataTable items5 initialSortKey 10) \<lparr> currentPage := 2 \<rparr>"
    using n by (simp add: run_def useDataTable_def)
  have q: "pageCount str ((useDataTable items5 initialSortKey 10) \<lparr> currentPage := 2 \<rparr>) = 1"
    using a by (intro pageCount_5_10) (simp_all add: useDataTable_def)
  show "actualCurrentPage str
           (run str (useDataTable items12 initialSortKey 10) [NextPage, NewItems items5]) = 1"
    by (simp add: m actualCurrentPage_def q)
  have "run str (useDataTable items12 initialSortKey 10) [NextPage, NewItems items5, SyncPage]
      = syncPage str (run str (useDataTable items12 initialSortKey 10) [NextPage, NewItems items5])"
    by (simp add: run_def)
  then show "currentPage
           (run str (useDataTable items12 initialSortKey 10) [NextPage, NewItems items5, SyncPage]) = 1"
    by (simp add: m syncPage_def actualCurrentPage_def q)
qed

theorem pageCount_and_currentPage_range_witness:
  "pageCount show_nat (useDataTable (sampleRows 12) None 10) = 2
   \<and> actualCurrentPage show_nat
        (run show_nat (useDataTable (sampleRows 12) None 10) [NextPage, NewItems (sampleRows 5)]) = 1"
proof -
  have l: "length (sampleRows 12) = 12" "length (sampleRows 5) = 5"
    by (simp_all add: sampleRows_def)
  note t = pageCount_and_currentPage_range
    [of 10 show_nat "sampleRows 12" None "[NextPage, NewItems (sampleRows 5)]" "sampleRows 12"
        "sampleRows 5"]
  from t l show ?thesis by blast
qed

end
